theory Spec2Isabelle
  imports Main "HOL-Library.Word" "HOL-Library.Char_ord"
begin

section \<open>FORMAT-directed internal formatted output of the Fortran runtime\<close>

text \<open>
  A shallow embedding of \<^verbatim>\<open>runtime/format.cpp\<close>, \<^verbatim>\<open>runtime/io-stmt.cpp\<close> and
  \<^verbatim>\<open>runtime/io.cpp\<close>. A fatal \<^verbatim>\<open>Crash\<close> is the left summand of a result, a loop
  that need not end is a \<^theory_text>\<open>partial_function\<close> whose value \<open>None\<close> means that the
  call never returns.
\<close>

subsection \<open>Data model\<close>

text \<open>The diagnostics of \<^verbatim>\<open>Crash\<close>, one constructor for each message of the sources.\<close>

datatype error =
    FormatExhausted
  | IntegerExpected char
  | IntegerOutOfRange
  | StarNotBeforeParen
  | StackOverflow
  | LacksInitialParen
  | UnlimitedLacksDataEdits
  | MissingClosingQuote
  | InvalidHollerithWidth
  | InvalidCharacter char
  | UnknownEdit2 char char
  | UnknownEdit1 char
  | SlashNotAllowed
  | NotAnIntegerEdit char
  | BadMaxHeight int

text \<open>
  Modelled from the spec: the flags and the rounding modes of \<^verbatim>\<open>MutableModes\<close> are
  declared in \<^verbatim>\<open>format.h\<close>, which is not among the sources. \<^verbatim>\<open>editingFlags\<close> is a
  bit set of three one-bit flags: \<^verbatim>\<open>|= f\<close> is \<open>insert f\<close>, \<^verbatim>\<open>&= ~f\<close> removes \<open>f\<close>
  and \<^verbatim>\<open>& f\<close> tests membership.
\<close>

datatype EditingFlags = blankZero | decimalComma | signPlus

datatype RoundingMode = TiesToEven | ToZero | Up | Down | TiesAwayFromZero

record MutableModes =
  editingFlags :: "EditingFlags set"
  roundingMode :: RoundingMode

record DataEdit =
  descriptor :: char
  variation :: char
  width :: int
  digits :: "int option"
  expoDigits :: "int option"
  modes :: MutableModes
  repeat :: int

record Iteration =
  start :: int
  remaining :: int

text \<open>
  Modelled from the spec: \<^verbatim>\<open>Iteration::unlimited\<close> is declared in \<^verbatim>\<open>format.h\<close>; it is
  the \<^verbatim>\<open>UNLIMITED\<close> mark of a frame, distinct from every count \<open>\<ge> 0\<close>.
\<close>

definition unlimited :: int where
  "unlimited = - 1"

text \<open>
  Modelled from the spec: the I/O status kept by \<^verbatim>\<open>IoErrorHandler\<close>
  (\<^verbatim>\<open>io-error.h\<close> is not among the sources). \<open>IostatOk\<close> is the status 0, \<open>IostatEor\<close>
  the nonzero status of an end of record.
\<close>

datatype Iostat = IostatOk | IostatEor

text \<open>
  The statement object \<^verbatim>\<open>InternalFormattedIoStatementState<false, char>\<close>. The members
  of its last member \<^verbatim>\<open>format_\<close>, a \<^verbatim>\<open>FormatControl<char>\<close>, are written inline
  (\<open>scale\<close> to \<open>stack\<close>); \<open>mutableModes\<close> is what \<^verbatim>\<open>mutableModes()\<close> refers to.
  The buffer \<open>internal\<close> and the FORMAT \<open>format\<close> are the character arrays the
  pointers of the source point to. A member \<^verbatim>\<open>x_\<close> of the source is the field \<open>x\<close>.
\<close>

record stmt =
  internal :: string
  internalLength :: nat
  at :: nat
  mutableModes :: MutableModes
  ioStat :: Iostat
  scale :: int
  maxHeight :: nat
  height :: nat
  format :: string
  offset :: int
  formatLength :: int
  stack :: "nat \<Rightarrow> Iteration"

abbreviation NUL :: char where
  "NUL \<equiv> CHR 0x00"

abbreviation apostrophe :: char where
  "apostrophe \<equiv> CHR 0x27"

subsection \<open>The statement as the sink of emissions (\<^verbatim>\<open>io-stmt.cpp\<close>)\<close>

text \<open>Modelled from the spec: \<^verbatim>\<open>SignalEor\<close> records the end-of-record condition and
  \<^verbatim>\<open>GetIoStat\<close> reads the recorded status (both are members of \<^verbatim>\<open>IoErrorHandler\<close>).\<close>

definition SignalEor :: "stmt \<Rightarrow> stmt" where
  "SignalEor s = s\<lparr>ioStat := IostatEor\<rparr>"

definition GetIoStat :: "stmt \<Rightarrow> Iostat" where
  "GetIoStat s = ioStat s"

text \<open>\<^verbatim>\<open>std::memcpy(buf + pos, data, k)\<close> on the arrays as lists.\<close>

definition memcpy :: "string \<Rightarrow> nat \<Rightarrow> string \<Rightarrow> nat \<Rightarrow> string" where
  "memcpy buf pos data k = take pos buf @ take k data @ drop (pos + k) buf"

definition Emit :: "string \<Rightarrow> nat \<Rightarrow> stmt \<Rightarrow> bool \<times> stmt" where
  "Emit data chars s =
     (if at s + chars > internalLength s then
        (let s1 = SignalEor s;
             s2 = (if at s1 < internalLength s1
                   then s1\<lparr>internal := memcpy (internal s1) (at s1) data (internalLength s1 - at s1),
                           at := internalLength s1\<rparr>
                   else s1)
         in (False, s2))
      else (True, s\<lparr>internal := memcpy (internal s) (at s) data chars,
                     at := at s + chars\<rparr>))"

definition HandleAbsolutePosition :: "int \<Rightarrow> stmt \<Rightarrow> bool \<times> stmt" where
  "HandleAbsolutePosition n s =
     (let n' = (if n < 0 then 0 else n) in
      if nat n' \<ge> internalLength s then (False, SignalEor s)
      else (True, s\<lparr>at := nat n'\<rparr>))"

definition HandleRelativePosition :: "int \<Rightarrow> stmt \<Rightarrow> bool \<times> stmt" where
  "HandleRelativePosition n s =
     (if n < 0 then (True, s\<lparr>at := at s - min (at s) (nat (- n))\<rparr>)
      else if at s + nat n > internalLength s
      then (False, (SignalEor s)\<lparr>at := internalLength s\<rparr>)
      else (True, s\<lparr>at := at s + nat n\<rparr>))"

text \<open>The internal statement does not override \<^verbatim>\<open>HandleSlash\<close>: the default of
  \<^verbatim>\<open>FormatContext\<close> crashes.\<close>

definition HandleSlash :: "int \<Rightarrow> stmt \<Rightarrow> error + stmt" where
  "HandleSlash n s = Inl SlashNotAllowed"

subsection \<open>Reading the FORMAT (\<^verbatim>\<open>format.cpp\<close>)\<close>

text \<open>
  Modelled from the spec: \<^verbatim>\<open>Capitalize\<close>, \<^verbatim>\<open>PeekNext\<close> and \<^verbatim>\<open>GetNextChar\<close> are
  inline members declared in \<^verbatim>\<open>format.h\<close>, which is not among the sources. Letters
  are folded to upper case; \<^verbatim>\<open>PeekNext\<close> looks at the character under the cursor
  without moving and yields NUL at the end of the FORMAT; \<^verbatim>\<open>GetNextChar\<close> yields that
  character and moves the cursor past it, and is fatal at the end of the FORMAT.
\<close>

definition Capitalize :: "char \<Rightarrow> char" where
  "Capitalize ch =
     (if CHR ''a'' \<le> ch \<and> ch \<le> CHR ''z'' then char_of (of_char ch - (32::nat)) else ch)"

definition PeekNext :: "stmt \<Rightarrow> char" where
  "PeekNext s =
     (if 0 \<le> offset s \<and> offset s < formatLength s then format s ! nat (offset s) else NUL)"

definition GetNextChar :: "stmt \<Rightarrow> error + (char \<times> stmt)" where
  "GetNextChar s =
     (if offset s \<ge> formatLength s then Inl FormatExhausted
      else Inr (format s ! nat (offset s), s\<lparr>offset := offset s + 1\<rparr>))"

text \<open>The digit loop of \<^verbatim>\<open>GetIntField\<close>; \<open>214748364\<close> is
  \<^verbatim>\<open>std::numeric_limits<int>::max() / 10\<close>.\<close>

function GetIntField_loop :: "char \<Rightarrow> char \<Rightarrow> int \<Rightarrow> stmt \<Rightarrow> error + (int \<times> stmt)" where
  "GetIntField_loop firstCh ch result s =
     (if CHR ''0'' \<le> ch \<and> ch \<le> CHR ''9'' then
        if result > 214748364 - (int (of_char ch) - 48) then Inl IntegerOutOfRange
        else
          (let s' = (if firstCh \<noteq> NUL then s else s\<lparr>offset := offset s + 1\<rparr>)
           in GetIntField_loop NUL (PeekNext s') (10 * result + int (of_char ch) - 48) s')
      else Inr (result, s))"
  by pat_completeness auto
termination
  by (relation "measure (\<lambda>(firstCh, ch, result, s).
        2 * nat (formatLength s - offset s) + (if firstCh \<noteq> NUL then 1 else 0)
        + (if CHR ''0'' \<le> ch \<and> ch \<le> CHR ''9'' then 1 else 0))")
     (auto simp: PeekNext_def)

declare GetIntField_loop.simps [simp del]

definition GetIntField :: "char \<Rightarrow> stmt \<Rightarrow> error + (int \<times> stmt)" where
  "GetIntField firstCh s =
     (let ch = (if firstCh \<noteq> NUL then firstCh else PeekNext s) in
      if ch \<noteq> CHR ''-'' \<and> ch \<noteq> CHR ''+'' \<and> (ch < CHR ''0'' \<or> ch > CHR ''9'')
      then Inl (IntegerExpected ch)
      else
        (let negate = (ch = CHR ''-'');
             firstCh' = (if negate then NUL else firstCh);
             ch' = (if negate then PeekNext s else ch)
         in case GetIntField_loop firstCh' ch' 0 s of
              Inl e \<Rightarrow> Inl e
            | Inr (result, s') \<Rightarrow>
                if negate \<and> - result > 0 then Inl IntegerOutOfRange
                else Inr (if negate then - result else result, s')))"

text \<open>\<^verbatim>\<open>HandleControl\<close>: the \<^verbatim>\<open>switch\<close> on \<open>ch\<close> with its \<^verbatim>\<open>break\<close>s falling to the
  two crashes at the end. \<^verbatim>\<open>scale\<close> is a \<^verbatim>\<open>std::uint16_t\<close>, the results of the
  position handlers are dropped.\<close>

definition setFlag :: "EditingFlags \<Rightarrow> stmt \<Rightarrow> stmt" where
  "setFlag f s = s\<lparr>mutableModes := (mutableModes s)
       \<lparr>editingFlags := insert f (editingFlags (mutableModes s))\<rparr>\<rparr>"

definition clearFlag :: "EditingFlags \<Rightarrow> stmt \<Rightarrow> stmt" where
  "clearFlag f s = s\<lparr>mutableModes := (mutableModes s)
       \<lparr>editingFlags := editingFlags (mutableModes s) - {f}\<rparr>\<rparr>"

definition setRounding :: "RoundingMode \<Rightarrow> stmt \<Rightarrow> stmt" where
  "setRounding r s = s\<lparr>mutableModes := (mutableModes s)\<lparr>roundingMode := r\<rparr>\<rparr>"

definition HandleControl :: "char \<Rightarrow> char \<Rightarrow> int \<Rightarrow> stmt \<Rightarrow> error + stmt" where
  "HandleControl ch next n s =
     (if ch = CHR ''B'' \<and> next = CHR ''Z'' then Inr (setFlag blankZero s)
      else if ch = CHR ''B'' \<and> next = CHR ''N'' then Inr (clearFlag blankZero s)
      else if ch = CHR ''D'' \<and> next = CHR ''C'' then Inr (setFlag decimalComma s)
      else if ch = CHR ''D'' \<and> next = CHR ''P'' then Inr (clearFlag decimalComma s)
      else if ch = CHR ''P'' \<and> next = NUL then Inr (s\<lparr>scale := n mod 65536\<rparr>)
      else if ch = CHR ''R'' \<and> next = CHR ''N'' then Inr (setRounding TiesToEven s)
      else if ch = CHR ''R'' \<and> next = CHR ''Z'' then Inr (setRounding ToZero s)
      else if ch = CHR ''R'' \<and> next = CHR ''U'' then Inr (setRounding Up s)
      else if ch = CHR ''R'' \<and> next = CHR ''D'' then Inr (setRounding Down s)
      else if ch = CHR ''R'' \<and> next = CHR ''C'' then Inr (setRounding TiesAwayFromZero s)
      else if ch = CHR ''X'' \<and> next = NUL then Inr (snd (HandleRelativePosition n s))
      else if ch = CHR ''S'' \<and> next = CHR ''P'' then Inr (setFlag signPlus s)
      else if ch = CHR ''S'' \<and> (next = NUL \<or> next = CHR ''S'') then Inr (clearFlag signPlus s)
      else if ch = CHR ''T'' \<and> next = NUL then Inr (snd (HandleAbsolutePosition n s))
      else if ch = CHR ''T'' \<and> (next = CHR ''L'' \<or> next = CHR ''R'')
        then Inr (snd (HandleRelativePosition (if next = CHR ''L'' then - n else n) s))
      else if next \<noteq> NUL then Inl (UnknownEdit2 ch next)
      else Inl (UnknownEdit1 ch))"

subsection \<open>\<^verbatim>\<open>CueUpNextDataEdit\<close>\<close>

text \<open>What one turn of the \<^verbatim>\<open>while (true)\<close> loop does: crash, return from the function, or
  go round again.\<close>

datatype 'a turn = Crash error | Return int stmt | Continue 'a

text \<open>The inner loop that skips \<open>,\<close> and \<open>:\<close>; \<open>None\<close> is the \<^verbatim>\<open>return 0\<close> at a colon
  when stopping.\<close>

function skipSeparators :: "bool \<Rightarrow> char \<Rightarrow> stmt \<Rightarrow> error + (char option \<times> stmt)" where
  "skipSeparators stop ch s =
     (if ch = CHR '','' \<or> ch = CHR '':'' then
        if stop \<and> ch = CHR '':'' then Inr (None, s)
        else (case GetNextChar s of
                Inl e \<Rightarrow> Inl e
              | Inr (c, s') \<Rightarrow> skipSeparators stop (Capitalize c) s')
      else Inr (Some ch, s))"
  by pat_completeness auto
termination
  by (relation "measure (\<lambda>(stop, ch, s). nat (formatLength s - offset s))")
     (auto simp: GetNextChar_def split: if_splits)

declare skipSeparators.simps [simp del]

text \<open>The optional repeat count or \<open>*\<close> before an item: the count, whether \<open>*\<close> was seen,
  and the character that follows.\<close>

definition readRepeat :: "char \<Rightarrow> stmt \<Rightarrow> error + (int option \<times> bool \<times> char \<times> stmt)" where
  "readRepeat ch s =
     (if ch = CHR ''-'' \<or> ch = CHR ''+'' \<or> (CHR ''0'' \<le> ch \<and> ch \<le> CHR ''9'') then
        (case GetIntField ch s of
           Inl e \<Rightarrow> Inl e
         | Inr (r, s1) \<Rightarrow>
             (case GetNextChar s1 of
                Inl e \<Rightarrow> Inl e
              | Inr (c, s2) \<Rightarrow> Inr (Some r, False, c, s2)))
      else if ch = CHR ''*'' then
        (case GetNextChar s of
           Inl e \<Rightarrow> Inl e
         | Inr (c, s1) \<Rightarrow>
             if c \<noteq> CHR ''('' then Inl StarNotBeforeParen else Inr (None, True, c, s1))
      else Inr (None, False, ch, s))"

text \<open>\<^verbatim>\<open>repeat && *repeat > 0 ? *repeat : 1\<close>\<close>

definition repeatOr1 :: "int option \<Rightarrow> int" where
  "repeatOr1 r = (case r of Some k \<Rightarrow> (if k > 0 then k else 1) | None \<Rightarrow> 1)"

text \<open>The branch \<^verbatim>\<open>ch == '('\<close>: push a frame.\<close>

definition openParen :: "int \<Rightarrow> int option \<Rightarrow> bool \<Rightarrow> stmt \<Rightarrow> (int \<times> stmt) turn" where
  "openParen ulc r unlim s =
     (if height s \<ge> maxHeight s then Crash StackOverflow
      else
        (let frame = \<lparr>start = offset s - 1,
                      remaining =
                        (if unlim \<or> height s = 0 then unlimited
                         else case r of Some k \<Rightarrow> (if k \<le> 0 then 1 else k) - 1 | None \<Rightarrow> 0)\<rparr>;
             ulc' = (if unlim \<or> height s = 0 then offset s - 1 else ulc)
         in Continue (ulc', s\<lparr>stack := (stack s)(height s := frame), height := height s + 1\<rparr>)))"

text \<open>The branch \<^verbatim>\<open>ch == ')'\<close>, reached with \<open>height \<noteq> 0\<close>.\<close>

definition closeParen :: "bool \<Rightarrow> int \<Rightarrow> stmt \<Rightarrow> (int \<times> stmt) turn" where
  "closeParen stop ulc s =
     (if height s = 1 \<and> stop then Return 0 s
      else
        (case (if height s = 1 then HandleSlash 1 s else Inr s) of
           Inl e \<Rightarrow> Crash e
         | Inr s1 \<Rightarrow>
             (let top = stack s1 (height s1 - 1) in
              if remaining top = unlimited then
                (let s2 = s1\<lparr>offset := start top + 1\<rparr> in
                 if offset s2 = ulc then Crash UnlimitedLacksDataEdits else Continue (ulc, s2))
              else if remaining top > 0 then
                Continue (ulc, s1\<lparr>stack := (stack s1)(height s1 - 1 := top\<lparr>remaining := remaining top - 1\<rparr>),
                                 offset := start top + 1\<rparr>)
              else
                Continue (ulc, s1\<lparr>stack := (stack s1)(height s1 - 1 := top\<lparr>remaining := remaining top - 1\<rparr>),
                                 height := height s1 - 1\<rparr>))))"

text \<open>The scan for the closing quote of a character literal.\<close>

function scanQuote :: "char \<Rightarrow> stmt \<Rightarrow> stmt" where
  "scanQuote quote s =
     (if offset s < formatLength s \<and> format s ! nat (offset s) \<noteq> quote
      then scanQuote quote (s\<lparr>offset := offset s + 1\<rparr>) else s)"
  by pat_completeness auto
termination
  by (relation "measure (\<lambda>(quote, s). nat (formatLength s - offset s))") auto

declare scanQuote.simps [simp del]

text \<open>The branch of a quoted character literal. \<^verbatim>\<open>format_ + start\<close> is the FORMAT from
  \<open>start\<close> on.\<close>

definition characterLiteral :: "char \<Rightarrow> int \<Rightarrow> stmt \<Rightarrow> (int \<times> stmt) turn" where
  "characterLiteral quote ulc s =
     (let start0 = offset s;
          s1 = scanQuote quote s
      in if offset s1 \<ge> formatLength s1 then Crash MissingClosingQuote
         else
           (let s2 = s1\<lparr>offset := offset s1 + 1\<rparr>;
                chars0 = nat (offset s2 - start0);
                chars = (if PeekNext s2 = quote then chars0 else chars0 - 1)
            in Continue (ulc, snd (Emit (drop (nat start0) (format s2)) chars s2))))"

text \<open>The branch \<^verbatim>\<open>ch == 'H'\<close>. The cursor and the count are \<^verbatim>\<open>int\<close>s: the sum
  \<^verbatim>\<open>offset_ + *repeat\<close> of the width test and of the advance is computed in 32 bits and
  wraps round, so that a count near \<open>2\<^sup>3\<^sup>1\<close> passes the test and leaves the cursor
  negative. \<open>int32\<close> is the value of a sum as a 32-bit \<^verbatim>\<open>int\<close>.\<close>

definition int32 :: "int \<Rightarrow> int" where
  "int32 x = (x + 2147483648) mod 4294967296 - 2147483648"

definition hollerith :: "int option \<Rightarrow> int \<Rightarrow> stmt \<Rightarrow> (int \<times> stmt) turn" where
  "hollerith r ulc s =
     (case r of
        None \<Rightarrow> Crash InvalidHollerithWidth
      | Some k \<Rightarrow>
          if k < 1 \<or> int32 (offset s + k) > formatLength s then Crash InvalidHollerithWidth
          else
            (let s1 = snd (Emit (drop (nat (offset s)) (format s)) (nat k) s)
             in Continue (ulc, s1\<lparr>offset := int32 (offset s1 + k)\<rparr>)))"

text \<open>The branch of a letter: a data edit descriptor ends the function, a control edit
  descriptor is applied.\<close>

definition isDataEditLetter :: "char \<Rightarrow> bool" where
  "isDataEditLetter ch \<longleftrightarrow>
     ch = CHR ''A'' \<or> ch = CHR ''I'' \<or> ch = CHR ''B'' \<or> ch = CHR ''O'' \<or> ch = CHR ''Z'' \<or>
     ch = CHR ''F'' \<or> ch = CHR ''D'' \<or> ch = CHR ''G''"

definition editDescriptor :: "char \<Rightarrow> int option \<Rightarrow> int \<Rightarrow> stmt \<Rightarrow> (int \<times> stmt) turn" where
  "editDescriptor ch r ulc s =
     (let start0 = offset s - 1;
          next0 = Capitalize (PeekNext s);
          next = (if next0 < CHR ''A'' \<or> next0 > CHR ''Z'' then NUL else next0)
      in if ch = CHR ''E'' \<or> (next = NUL \<and> isDataEditLetter ch)
         then Return (repeatOr1 r) (s\<lparr>offset := start0\<rparr>)
         else
           (case (if ch = CHR ''T''
                  then (case GetIntField NUL s of Inl e \<Rightarrow> Inl e | Inr (k, s1) \<Rightarrow> Inr (Some k, s1))
                  else Inr (r, s)) of
              Inl e \<Rightarrow> Crash e
            | Inr (r', s1) \<Rightarrow>
                (case HandleControl ch next (repeatOr1 r') s1 of
                   Inl e \<Rightarrow> Crash e
                 | Inr s2 \<Rightarrow> Continue (ulc, s2))))"

text \<open>One turn of the loop: \<open>ulc\<close> is the local \<^verbatim>\<open>unlimitedLoopCheck\<close>, which lives across
  the turns of one call.\<close>

definition dispatch :: "bool \<Rightarrow> int \<Rightarrow> int option \<Rightarrow> bool \<Rightarrow> char \<Rightarrow> stmt \<Rightarrow> (int \<times> stmt) turn" where
  "dispatch stop ulc r unlim ch s =
     (if ch = CHR ''('' then openParen ulc r unlim s
      else if height s = 0 then Crash LacksInitialParen
      else if ch = CHR '')'' then closeParen stop ulc s
      else if ch = apostrophe \<or> ch = CHR 0x22 then characterLiteral ch ulc s
      else if ch = CHR ''H'' then hollerith r ulc s
      else if CHR ''A'' \<le> ch \<and> ch \<le> CHR ''Z'' then editDescriptor ch r ulc s
      else if ch = CHR ''/'' then
        (case HandleSlash (repeatOr1 r) s of Inl e \<Rightarrow> Crash e | Inr s1 \<Rightarrow> Continue (ulc, s1))
      else Crash (InvalidCharacter ch))"

definition CueUp_turn :: "bool \<Rightarrow> int \<times> stmt \<Rightarrow> (int \<times> stmt) turn" where
  "CueUp_turn stop st =
     (case GetNextChar (snd st) of
        Inl e \<Rightarrow> Crash e
      | Inr (c, s1) \<Rightarrow>
          (case skipSeparators stop (Capitalize c) s1 of
             Inl e \<Rightarrow> Crash e
           | Inr (None, s2) \<Rightarrow> Return 0 s2
           | Inr (Some ch, s2) \<Rightarrow>
               (case readRepeat ch s2 of
                  Inl e \<Rightarrow> Crash e
                | Inr (r, unlim, ch', s3) \<Rightarrow> dispatch stop (fst st) r unlim ch' s3)))"

partial_function (option) CueUp_loop :: "bool \<Rightarrow> int \<times> stmt \<Rightarrow> (error + int \<times> stmt) option" where
  "CueUp_loop stop st =
     (case CueUp_turn stop st of
        Crash e \<Rightarrow> Some (Inl e)
      | Return k s \<Rightarrow> Some (Inr (k, s))
      | Continue st' \<Rightarrow> CueUp_loop stop st')"

declare CueUp_loop.simps [code]

definition CueUpNextDataEdit :: "bool \<Rightarrow> stmt \<Rightarrow> (error + int \<times> stmt) option" where
  "CueUpNextDataEdit stop s = CueUp_loop stop (- 1, s)"

subsection \<open>\<^verbatim>\<open>GetNext\<close> and \<^verbatim>\<open>FinishOutput\<close>\<close>

text \<open>The end of \<^verbatim>\<open>GetNext\<close>, "Handle repeated nonparenthesized edit descriptors":
  \<open>start0\<close> is the offset after the repeat count, \<open>r\<close> the count that
  \<^verbatim>\<open>CueUpNextDataEdit\<close> returned.\<close>

definition repeatedEdit :: "int \<Rightarrow> int \<Rightarrow> int \<Rightarrow> DataEdit \<Rightarrow> stmt \<Rightarrow> DataEdit \<times> stmt" where
  "repeatedEdit r maxRepeat start0 edit s =
     (let s1 = (if r > 1
                then s\<lparr>stack := (stack s)(height s := \<lparr>start = start0, remaining = r\<rparr>),
                       height := height s + 1\<rparr>
                else s)
      in if height s1 > 1 then
           (let top = stack s1 (height s1 - 1) in
            if format s1 ! nat (start top) \<noteq> CHR ''('' then
              if remaining top > maxRepeat then
                (edit\<lparr>repeat := maxRepeat\<rparr>,
                 s1\<lparr>stack := (stack s1)(height s1 - 1 := top\<lparr>remaining := remaining top - maxRepeat\<rparr>),
                    offset := start top\<rparr>)
              else (edit\<lparr>repeat := remaining top\<rparr>, s1\<lparr>height := height s1 - 1\<rparr>)
            else (edit\<lparr>repeat := 1\<rparr>, s1))
         else (edit\<lparr>repeat := 1\<rparr>, s1))"

text \<open>The part of \<^verbatim>\<open>GetNext\<close> after the call of \<^verbatim>\<open>CueUpNextDataEdit\<close>.\<close>

definition readDataEdit :: "int \<Rightarrow> int \<Rightarrow> stmt \<Rightarrow> error + (DataEdit \<times> stmt)" where
  "readDataEdit r maxRepeat s =
     (let start0 = offset s in
      case GetNextChar s of
        Inl e \<Rightarrow> Inl e
      | Inr (c, s1) \<Rightarrow>
          (let d = Capitalize c;
               v0 = Capitalize (PeekNext s1);
               hasVariation = (d = CHR ''E'' \<and> CHR ''A'' \<le> v0 \<and> v0 \<le> CHR ''Z'');
               v = (if hasVariation then v0 else NUL);
               s2 = (if hasVariation then s1\<lparr>offset := offset s1 + 1\<rparr> else s1)
           in case GetIntField NUL s2 of
                Inl e \<Rightarrow> Inl e
              | Inr (w, s3) \<Rightarrow>
                  (let edit = \<lparr>descriptor = d, variation = v, width = w, digits = None,
                               expoDigits = None, modes = mutableModes s3, repeat = 1\<rparr>
                   in if PeekNext s3 = CHR ''.'' then
                        (case GetIntField NUL (s3\<lparr>offset := offset s3 + 1\<rparr>) of
                           Inl e \<Rightarrow> Inl e
                         | Inr (dg, s4) \<Rightarrow>
                             (let ch = PeekNext s4 in
                              if ch = CHR ''e'' \<or> ch = CHR ''E'' \<or> ch = CHR ''d'' \<or> ch = CHR ''D'' then
                                (case GetIntField NUL (s4\<lparr>offset := offset s4 + 1\<rparr>) of
                                   Inl e \<Rightarrow> Inl e
                                 | Inr (ex, s5) \<Rightarrow>
                                     Inr (repeatedEdit r maxRepeat start0
                                            (edit\<lparr>digits := Some dg, expoDigits := Some ex\<rparr>) s5))
                              else Inr (repeatedEdit r maxRepeat start0 (edit\<lparr>digits := Some dg\<rparr>) s4)))
                      else Inr (repeatedEdit r maxRepeat start0 edit s3))))"

definition GetNext :: "int \<Rightarrow> stmt \<Rightarrow> (error + DataEdit \<times> stmt) option" where
  "GetNext maxRepeat s =
     (case CueUpNextDataEdit False s of
        None \<Rightarrow> None
      | Some (Inl e) \<Rightarrow> Some (Inl e)
      | Some (Inr (r, s1)) \<Rightarrow> Some (readDataEdit r maxRepeat s1))"

definition FinishOutput :: "stmt \<Rightarrow> (error + stmt) option" where
  "FinishOutput s =
     (case CueUpNextDataEdit True s of
        None \<Rightarrow> None
      | Some (Inl e) \<Rightarrow> Some (Inl e)
      | Some (Inr (r, s1)) \<Rightarrow> Some (Inr s1))"

subsection \<open>The API (\<^verbatim>\<open>io.cpp\<close>)\<close>

text \<open>
  The constructors of the statement and of its \<^verbatim>\<open>FormatControl\<close>. The buffer is filled
  with blanks. The default of the argument \<^verbatim>\<open>maxHeight\<close>, which the statement's
  constructor relies on, is declared in \<^verbatim>\<open>format.h\<close> and not among the sources: it
  is an argument here. Modelled from the spec: the initial values of the members
  (\<open>TiesToEven\<close>, no flag, status 0, cursor, height and scale 0).
\<close>

definition InternalFormattedIoStatementState :: "nat \<Rightarrow> string \<Rightarrow> int \<Rightarrow> stmt" where
  "InternalFormattedIoStatementState len fmt maxHeight0 =
     \<lparr>internal = replicate len (CHR '' ''), internalLength = len, at = 0,
      mutableModes = \<lparr>editingFlags = {}, roundingMode = TiesToEven\<rparr>,
      ioStat = IostatOk, scale = 0, maxHeight = nat (maxHeight0 mod 256), height = 0,
      format = fmt, offset = 0, formatLength = int (length fmt),
      stack = (\<lambda>_. \<lparr>start = 0, remaining = 0\<rparr>)(0 := \<lparr>start = 0, remaining = unlimited\<rparr>)\<rparr>"

definition BeginInternalFormattedOutput :: "nat \<Rightarrow> string \<Rightarrow> int \<Rightarrow> error + stmt" where
  "BeginInternalFormattedOutput len fmt maxHeight0 =
     (if maxHeight0 > 127 then Inl (BadMaxHeight maxHeight0)
      else Inr (InternalFormattedIoStatementState len fmt maxHeight0))"

text \<open>The conversion loops of \<^verbatim>\<open>OutputInteger64\<close>: each writes the next digit in front of
  the digits so far (\<^verbatim>\<open>*--p\<close>). Modelled from the spec: \<^verbatim>\<open>common::DivideUnsignedBy\<close>
  (\<^verbatim>\<open>unsigned-const-division.h\<close> is not among the sources) is the division by 10.\<close>

function decimalDigits :: "64 word \<Rightarrow> string \<Rightarrow> string" where
  "decimalDigits un p =
     (if un > 0
      then (let quotient = un div 10
            in decimalDigits quotient (char_of (unat (48 + un - 10 * quotient)) # p))
      else p)"
  by pat_completeness auto
termination
proof (relation "measure (\<lambda>(un, p). unat un)")
  show "wf (measure (\<lambda>(un :: 64 word, p :: string). unat un))"
    by simp
next
  fix un :: "64 word" and p :: string and x :: "64 word"
  assume "0 < un" and "x = un div 10"
  then have "unat un \<noteq> 0"
    by (simp add: unat_eq_0 word_greater_zero_iff)
  then have "unat un div 10 < unat un"
    by simp
  with \<open>x = un div 10\<close> show "((x, char_of (unat (48 + un - 10 * x)) # p), un, p)
      \<in> measure (\<lambda>(un, p). unat un)"
    by (simp add: unat_div)
qed

declare decimalDigits.simps [simp del]

function binaryDigits :: "64 word \<Rightarrow> string \<Rightarrow> string" where
  "binaryDigits un p =
     (if un > 0 then binaryDigits (drop_bit 1 un) (char_of (unat (48 + (and un 1))) # p) else p)"
  by pat_completeness auto
termination
proof (relation "measure (\<lambda>(un, p). unat un)")
  show "wf (measure (\<lambda>(un :: 64 word, p :: string). unat un))"
    by simp
next
  fix un :: "64 word" and p :: string
  assume "0 < un"
  then have "unat un \<noteq> 0"
    by (simp add: unat_eq_0 word_greater_zero_iff)
  then have "unat un div 2 ^ 1 < unat un"
    by (intro div_less_dividend) simp_all
  then show "((drop_bit 1 un, char_of (unat (48 + (and un 1))) # p), un, p)
      \<in> measure (\<lambda>(un, p). unat un)"
    by (simp add: unat_drop_bit_eq drop_bit_eq_div unat_div)
qed

declare binaryDigits.simps [simp del]

function octalDigits :: "64 word \<Rightarrow> string \<Rightarrow> string" where
  "octalDigits un p =
     (if un > 0 then octalDigits (drop_bit 3 un) (char_of (unat (48 + (and un 7))) # p) else p)"
  by pat_completeness auto
termination
proof (relation "measure (\<lambda>(un, p). unat un)")
  show "wf (measure (\<lambda>(un :: 64 word, p :: string). unat un))"
    by simp
next
  fix un :: "64 word" and p :: string
  assume "0 < un"
  then have "unat un \<noteq> 0"
    by (simp add: unat_eq_0 word_greater_zero_iff)
  then have "unat un div 2 ^ 3 < unat un"
    by (intro div_less_dividend) simp_all
  then show "((drop_bit 3 un, char_of (unat (48 + (and un 7))) # p), un, p)
      \<in> measure (\<lambda>(un, p). unat un)"
    by (simp add: unat_drop_bit_eq drop_bit_eq_div unat_div)
qed

declare octalDigits.simps [simp del]

text \<open>\<^verbatim>\<open>int digit = un & 0xf\<close>, then \<^verbatim>\<open>'A' + (digit - 10)\<close> or \<^verbatim>\<open>'0' + digit\<close>.\<close>

definition hexDigit :: "64 word \<Rightarrow> char" where
  "hexDigit un =
     (let digit = uint (and un 15)
      in if digit \<ge> 10 then char_of (65 + (digit - 10)) else char_of (48 + digit))"

function hexDigits :: "64 word \<Rightarrow> string \<Rightarrow> string" where
  "hexDigits un p =
     (if un > 0 then hexDigits (drop_bit 4 un) (hexDigit un # p) else p)"
  by pat_completeness auto
termination
proof (relation "measure (\<lambda>(un, p). unat un)")
  show "wf (measure (\<lambda>(un :: 64 word, p :: string). unat un))"
    by simp
next
  fix un :: "64 word" and p :: string
  assume "0 < un"
  then have "unat un \<noteq> 0"
    by (simp add: unat_eq_0 word_greater_zero_iff)
  then have "unat un div 2 ^ 4 < unat un"
    by (intro div_less_dividend) simp_all
  then show "((drop_bit 4 un, hexDigit un # p), un, p) \<in> measure (\<lambda>(un, p). unat un)"
    by (simp add: unat_drop_bit_eq drop_bit_eq_div unat_div)
qed

declare hexDigits.simps [simp del]

text \<open>The loops that emit one character \<open>k\<close> times and give up at the first emission
  the sink rejects.\<close>

fun emitTimes :: "nat \<Rightarrow> string \<Rightarrow> stmt \<Rightarrow> bool \<times> stmt" where
  "emitTimes 0 c io = (True, io)"
| "emitTimes (Suc k) c io =
     (case Emit c 1 io of (ok, io') \<Rightarrow> if ok then emitTimes k c io' else (False, io'))"

text \<open>The \<^verbatim>\<open>switch\<close> on the descriptor: \<open>signChars\<close> and the digits written, or \<open>None\<close>
  in the \<^verbatim>\<open>default\<close> case.\<close>

definition convertInteger :: "DataEdit \<Rightarrow> 64 word \<Rightarrow> (int \<times> string) option" where
  "convertInteger edit n =
     (let un = (if n <s 0 then - n else n) in
      if descriptor edit = CHR ''G'' \<or> descriptor edit = CHR ''I'' then
        Some (if n <s 0 \<or> signPlus \<in> editingFlags (modes edit) then 1 else 0, decimalDigits un [])
      else if descriptor edit = CHR ''B'' then Some (0, binaryDigits un [])
      else if descriptor edit = CHR ''O'' then Some (0, octalDigits un [])
      else if descriptor edit = CHR ''Z'' then Some (0, hexDigits un [])
      else None)"

text \<open>\<^verbatim>\<open>OutputInteger64\<close> after \<^verbatim>\<open>io->GetNext(edit)\<close>. The fields of the edit are
  \<^verbatim>\<open>int\<close>s that \<^verbatim>\<open>GetIntField\<close> keeps within \<open>\<plusminus>2147483640\<close>, so that \<open>total\<close> does
  not overflow.\<close>

definition editInteger64 :: "DataEdit \<Rightarrow> 64 word \<Rightarrow> stmt \<Rightarrow> error + (bool \<times> stmt)" where
  "editInteger64 edit n io =
     (case convertInteger edit n of
        None \<Rightarrow> Inl (NotAnIntegerEdit (descriptor edit))
      | Some (signChars0, p) \<Rightarrow>
          (let digits0 = int (length p);
               fits = (case digits edit of Some m \<Rightarrow> digits0 \<le> m | None \<Rightarrow> False);
               blank = (fits \<and> digits edit = Some 0 \<and> n = 0);
               signChars = (if blank then 0 else signChars0);
               w = (if blank then max 1 (width edit) else width edit);
               leadingZeroes =
                 (if fits then (if blank then 0 else the (digits edit) - digits0)
                  else if n = 0 then 1 else 0);
               total = signChars + leadingZeroes + digits0
           in if w > 0 \<and> total > w then Inr (emitTimes (nat w) ''*'' io)
              else if total < w then Inr (False, snd (emitTimes (nat (w - total)) '' '' io))
              else
                (case (if signChars \<noteq> 0 then Emit (if n <s 0 then ''-'' else ''+'') 1 io
                       else (True, io)) of
                   (ok1, io1) \<Rightarrow>
                     if \<not> ok1 then Inr (False, io1)
                     else
                       (case emitTimes (nat leadingZeroes) ''0'' io1 of
                          (ok2, io2) \<Rightarrow>
                            if \<not> ok2 then Inr (False, io2)
                            else Inr (Emit p (nat digits0) io2)))))"

definition OutputInteger64 :: "64 word \<Rightarrow> stmt \<Rightarrow> (error + bool \<times> stmt) option" where
  "OutputInteger64 n io =
     (case GetNext 1 io of
        None \<Rightarrow> None
      | Some (Inl e) \<Rightarrow> Some (Inl e)
      | Some (Inr (edit, io1)) \<Rightarrow> Some (editInteger64 edit n io1))"

text \<open>\<^verbatim>\<open>EndIoStatement\<close>: the status, and the statement the caller's buffer is read from.\<close>

definition EndIoStatement :: "stmt \<Rightarrow> (error + Iostat \<times> stmt) option" where
  "EndIoStatement io =
     (case FinishOutput io of
        None \<Rightarrow> None
      | Some (Inl e) \<Rightarrow> Some (Inl e)
      | Some (Inr io1) \<Rightarrow> Some (Inr (GetIoStat io1, io1)))"

subsection \<open>The test program\<close>

text \<open>\<^verbatim>\<open>main\<close> of the I/O test, for any buffer length, FORMAT and list of data items:
  \<^verbatim>\<open>BeginInternalFormattedOutput\<close>, one \<^verbatim>\<open>OutputInteger64\<close> for each item,
  \<^verbatim>\<open>EndIoStatement\<close>. The result is what each output call returned, the final status
  and the buffer the caller then reads.\<close>

fun outputIntegers :: "64 word list \<Rightarrow> stmt \<Rightarrow> (error + bool list \<times> stmt) option" where
  "outputIntegers [] io = Some (Inr ([], io))"
| "outputIntegers (n # ns) io =
     (case OutputInteger64 n io of
        None \<Rightarrow> None
      | Some (Inl e) \<Rightarrow> Some (Inl e)
      | Some (Inr (ok, io1)) \<Rightarrow>
          (case outputIntegers ns io1 of
             None \<Rightarrow> None
           | Some (Inl e) \<Rightarrow> Some (Inl e)
           | Some (Inr (oks, io2)) \<Rightarrow> Some (Inr (ok # oks, io2))))"

definition writeIntegers ::
  "nat \<Rightarrow> string \<Rightarrow> int \<Rightarrow> 64 word list \<Rightarrow> (error + bool list \<times> Iostat \<times> string) option" where
  "writeIntegers len fmt maxHeight0 ns =
     (case BeginInternalFormattedOutput len fmt maxHeight0 of
        Inl e \<Rightarrow> Some (Inl e)
      | Inr io \<Rightarrow>
          (case outputIntegers ns io of
             None \<Rightarrow> None
           | Some (Inl e) \<Rightarrow> Some (Inl e)
           | Some (Inr (oks, io1)) \<Rightarrow>
               (case EndIoStatement io1 of
                  None \<Rightarrow> None
                | Some (Inl e) \<Rightarrow> Some (Inl e)
                | Some (Inr (status, io2)) \<Rightarrow> Some (Inr (oks, status, internal io2)))))"

subsection \<open>Predicates of the proofs\<close>

text \<open>The states of the walk over \<open>(*(S))\<close> once it is inside the unlimited group: the
  sentinel holds the offset of the group's \<open>(\<close>, the cursor is before or after \<open>S\<close>.\<close>

definition inUnlimitedLap :: "int \<times> stmt \<Rightarrow> bool" where
  "inUnlimitedLap st \<longleftrightarrow>
     fst st = 2 \<and> format (snd st) = ''(*(S))'' \<and> formatLength (snd st) = 6 \<and>
     height (snd st) = 2 \<and> stack (snd st) 1 = \<lparr>start = 2, remaining = unlimited\<rparr> \<and>
     (offset (snd st) = 3 \<or> offset (snd st) = 4)"

text \<open>\<open>moved s s'\<close>: \<open>s'\<close> is \<open>s\<close> with the cursor of the FORMAT further on, and still
  within the FORMAT if it was.\<close>

definition moved :: "stmt \<Rightarrow> stmt \<Rightarrow> bool" where
  "moved s s' \<longleftrightarrow>
     (\<exists>k. s' = s\<lparr>offset := k\<rparr> \<and> offset s \<le> k \<and> (offset s \<le> formatLength s \<longrightarrow> k \<le> formatLength s))"

text \<open>\<open>sticky s s'\<close>: an end of record that the statement \<open>s\<close> has recorded is still
  recorded in the later state \<open>s'\<close>; \<open>turnSticky\<close> says so of what a turn of the loop
  leaves.\<close>

definition sticky :: "stmt \<Rightarrow> stmt \<Rightarrow> bool" where
  "sticky s s' \<longleftrightarrow> (ioStat s = IostatEor \<longrightarrow> ioStat s' = IostatEor)"


text \<open>The FORMAT of \<open>n\<close> nested parentheses around \<open>3I2\<close>, and the states of the walk that
  has opened \<open>k\<close> of them, under a bound of \<open>n\<close> frames.\<close>

definition nested :: "nat \<Rightarrow> string" where
  "nested n = replicate n (CHR ''('') @ ''3I2'' @ replicate n (CHR '')'')"

definition descending :: "nat \<Rightarrow> nat \<Rightarrow> int \<times> stmt \<Rightarrow> bool" where
  "descending n k st \<longleftrightarrow>
     format (snd st) = nested n \<and> formatLength (snd st) = int (2 * n + 3) \<and>
     maxHeight (snd st) = n \<and> offset (snd st) = int k \<and> height (snd st) = k"

subsection \<open>FORMATs of data edit descriptors and groups\<close>

text \<open>A class of FORMATs written out from their items, to compare a group \<open>n(...)\<close>
  with the \<open>n\<close> copies of its contents. \<open>dec\<close> is the decimal numeral of a number,
  \<open>valueOf\<close> the value of a list of digits read from left to right, \<open>stops\<close> says that a
  text does not go on with a digit.\<close>

definition digitChar :: "nat \<Rightarrow> char" where
  "digitChar d = char_of (48 + d)"

fun digitsOf :: "nat \<Rightarrow> nat list" where
  "digitsOf n = (if n < 10 then [n] else digitsOf (n div 10) @ [n mod 10])"

declare digitsOf.simps [simp del]

definition dec :: "nat \<Rightarrow> string" where
  "dec n = map digitChar (digitsOf n)"

definition isDigit :: "char \<Rightarrow> bool" where
  "isDigit ch \<longleftrightarrow> CHR ''0'' \<le> ch \<and> ch \<le> CHR ''9''"

definition isLetter :: "char \<Rightarrow> bool" where
  "isLetter ch \<longleftrightarrow> CHR ''A'' \<le> ch \<and> ch \<le> CHR ''Z''"

definition valueOf :: "int \<Rightarrow> nat list \<Rightarrow> int" where
  "valueOf acc ds = foldl (\<lambda>a d. 10 * a + int d) acc ds"

definition stops :: "string \<Rightarrow> bool" where
  "stops R \<longleftrightarrow> (case R of [] \<Rightarrow> True | c # _ \<Rightarrow> \<not> isDigit c)"

text \<open>A data edit descriptor as it is written: an optional repeat count, the letter, for \<open>E\<close>
  an optional second letter, the width, and optionally \<open>.d\<close> with optionally \<open>Ee\<close>. A list
  of items: each item is a data edit descriptor or a group with an optional repeat count
  and its own list of items.\<close>

record descr =
  rcount :: "nat option"
  letter :: char
  vary :: "char option"
  fieldWidth :: nat
  fraction :: "(nat \<times> nat option) option"



definition fracText :: "(nat \<times> nat option) option \<Rightarrow> string" where
  "fracText f =
     (case f of
        None \<Rightarrow> []
      | Some (d, None) \<Rightarrow> CHR ''.'' # dec d
      | Some (d, Some x) \<Rightarrow> CHR ''.'' # dec d @ CHR ''E'' # dec x)"

definition bodyText :: "descr \<Rightarrow> string" where
  "bodyText e =
     letter e # (case vary e of None \<Rightarrow> [] | Some v \<Rightarrow> [v]) @ dec (fieldWidth e) @ fracText (fraction e)"


definition small :: "nat \<Rightarrow> bool" where
  "small n \<longleftrightarrow> n < 1000000000"


text \<open>The descriptors that are data edit descriptors for \<^verbatim>\<open>CueUpNextDataEdit\<close>, with numbers
  that \<^verbatim>\<open>GetIntField\<close> accepts, and the edit that \<^verbatim>\<open>GetNext\<close> returns for one of them
  under the modes \<open>m\<close>.\<close>

definition validEdit :: "descr \<Rightarrow> bool" where
  "validEdit e \<longleftrightarrow>
     (letter e = CHR ''E'' \<or> isDataEditLetter (letter e) \<and> vary e = None) \<and>
     (case vary e of None \<Rightarrow> True | Some v \<Rightarrow> isLetter v) \<and>
     (case rcount e of None \<Rightarrow> True | Some n \<Rightarrow> small n) \<and>
     small (fieldWidth e) \<and>
     (case fraction e of
        None \<Rightarrow> True
      | Some (d, None) \<Rightarrow> small d
      | Some (d, Some x) \<Rightarrow> small d \<and> small x)"

definition theEdit :: "MutableModes \<Rightarrow> descr \<Rightarrow> DataEdit" where
  "theEdit m e =
     \<lparr>descriptor = letter e,
      variation = (case vary e of None \<Rightarrow> NUL | Some v \<Rightarrow> v),
      width = int (fieldWidth e),
      digits = (case fraction e of None \<Rightarrow> None | Some (d, x) \<Rightarrow> Some (int d)),
      expoDigits = (case fraction e of Some (d, Some x) \<Rightarrow> Some (int x) | _ \<Rightarrow> None),
      modes = m, repeat = 1\<rparr>"














section \<open>Properties\<close>

subsection \<open>Rewrite rules for the loops\<close>

lemma skipSeparators_other:
  "ch \<noteq> CHR '','' \<Longrightarrow> ch \<noteq> CHR '':'' \<Longrightarrow> skipSeparators stop ch s = Inr (Some ch, s)"
  by (simp add: skipSeparators.simps)

lemma GetIntField_loop_digit:
  "CHR ''0'' \<le> ch \<Longrightarrow> ch \<le> CHR ''9'' \<Longrightarrow> \<not> r > 214748364 - (int (of_char ch) - 48) \<Longrightarrow>
   GetIntField_loop firstCh ch r s =
     GetIntField_loop NUL (PeekNext (if firstCh \<noteq> NUL then s else s\<lparr>offset := offset s + 1\<rparr>))
       (10 * r + int (of_char ch) - 48) (if firstCh \<noteq> NUL then s else s\<lparr>offset := offset s + 1\<rparr>)"
  by (subst GetIntField_loop.simps) (simp add: Let_def)

lemma GetIntField_loop_other:
  "\<not> (CHR ''0'' \<le> ch \<and> ch \<le> CHR ''9'') \<Longrightarrow> GetIntField_loop firstCh ch r s = Inr (r, s)"
  by (subst GetIntField_loop.simps) auto

lemmas turn_defs = CueUp_turn_def GetNextChar_def Capitalize_def readRepeat_def
  dispatch_def editDescriptor_def openParen_def closeParen_def HandleControl_def PeekNext_def
  isDataEditLetter_def repeatOr1_def clearFlag_def setFlag_def unlimited_def HandleSlash_def
  Let_def skipSeparators_other

text \<open>A set of loop states that every turn maps into itself is never left: the loop does
  not return.\<close>

lemma CueUp_loop_diverges:
  assumes closed: "\<And>st. I st \<Longrightarrow> \<exists>st'. CueUp_turn stop st = Continue st' \<and> I st'"
    and start: "I st"
  shows "CueUp_loop stop st = None"
proof (rule ccontr)
  assume "CueUp_loop stop st \<noteq> None"
  then obtain y where run: "CueUp_loop stop st = Some y"
    by auto
  have "stop = stop \<longrightarrow> \<not> I st"
  proof (rule CueUp_loop.raw_induct [where P = "\<lambda>a b y. a = stop \<longrightarrow> \<not> I b", OF _ run])
    fix loop :: "bool \<Rightarrow> int \<times> stmt \<Rightarrow> (error + int \<times> stmt) option"
      and a b y'
    assume IH: "\<And>a b y. loop a b = Some y \<Longrightarrow> a = stop \<longrightarrow> \<not> I b"
      and unfold: "(case CueUp_turn a b of Crash e \<Rightarrow> Some (Inl e)
          | Return k s \<Rightarrow> Some (Inr (k, s)) | Continue st' \<Rightarrow> loop a st') = Some y'"
    show "a = stop \<longrightarrow> \<not> I b"
    proof (intro impI notI)
      assume "a = stop" and "I b"
      with closed obtain st'' where "I st''" and "CueUp_turn stop b = Continue st''"
        by blast
      with unfold \<open>a = stop\<close> have "loop stop st'' = Some y'"
        by simp
      from IH [OF this] \<open>I st''\<close> show False
        by simp
    qed
  qed
  with start show False
    by simp
qed


subsection \<open>The recorded end of record\<close>


lemma movedE:
  assumes "moved s s'"
  obtains k where "s' = s\<lparr>offset := k\<rparr>" and "offset s \<le> k"
    and "offset s \<le> formatLength s \<longrightarrow> k \<le> formatLength s"
  using assms unfolding moved_def by blast



lemma moved_fields:
  assumes "moved s s'"
  shows "internal s' = internal s" "internalLength s' = internalLength s" "at s' = at s"
    "mutableModes s' = mutableModes s" "ioStat s' = ioStat s" "scale s' = scale s"
    "maxHeight s' = maxHeight s" "height s' = height s" "format s' = format s"
    "formatLength s' = formatLength s" "stack s' = stack s" "offset s \<le> offset s'"
  using assms by (auto elim!: movedE)












lemma sticky_after:
  "sticky s s1 \<Longrightarrow> sticky s (s1\<lparr>offset := k\<rparr>)"
  "sticky s s1 \<Longrightarrow> sticky s (s1\<lparr>height := h\<rparr>)"
  "sticky s s1 \<Longrightarrow> sticky s (s1\<lparr>stack := f\<rparr>)"
  "sticky s s1 \<Longrightarrow> sticky s (s1\<lparr>stack := f, height := h\<rparr>)"
  "sticky s s1 \<Longrightarrow> sticky s (s1\<lparr>stack := f, offset := k\<rparr>)"
  "sticky s s1 \<Longrightarrow> sticky s (s1\<lparr>stack := f, height := h, offset := k\<rparr>)"
  by (simp_all add: sticky_def)



























subsection \<open>The scenario of the test program\<close>

text \<open>
  Claim C2. \<^verbatim>\<open>BeginInternalFormattedOutput\<close> on a buffer of 32 characters with the
  FORMAT \<open>(12HHELLO, WORLD,2X,I3,1X,'0x',Z8)\<close>, then \<^verbatim>\<open>OutputInteger64\<close> with 678 and
  with \<open>0xFEEDFACE\<close>, then \<^verbatim>\<open>EndIoStatement\<close>: every call returns, the buffer holds
  \<open>HELLO, WORLD  678 0xFEEDFACE\<close> followed by blanks, and the status is 0. (The
  FORMAT has one level of parentheses, the height 3 is that level and the two spare
  frames.)
\<close>

theorem C2_hello_world:
  "writeIntegers 32 ''(12HHELLO, WORLD,2X,I3,1X,'0x',Z8)'' 3 [678, 0xFEEDFACE]
     = Some (Inr ([True, True], IostatOk,
         ''HELLO, WORLD  678 0xFEEDFACE'' @ replicate 4 (CHR '' '')))"
  by code_simp

subsection \<open>Fields narrower than the width\<close>

text \<open>
  Claim C1 says that a field with \<open>total < width\<close> is the padding followed by the sign,
  the leading zeroes and the digits, as \<open>  -42\<close> for \<open>-42\<close> under \<open>(I5)\<close>. The code
  returns after the padding loop: under \<open>(I5)\<close> the item \<open>-42\<close> leaves a buffer of 32
  blanks, of which the first two are the field's padding (the cursor \<open>at\<close> is 2), and
  neither sign nor digits.
\<close>

theorem C1_I5_emits_padding_only:
  "writeIntegers 32 ''(I5)'' 3 [- 42] = Some (Inr ([False], IostatOk, replicate 32 (CHR '' '')))
   \<and> (case BeginInternalFormattedOutput 32 ''(I5)'' 3 of
        Inl e \<Rightarrow> False
      | Inr io \<Rightarrow>
          (case OutputInteger64 (- 42) io of
             Some (Inr (ok, io1)) \<Rightarrow> at io1 = 2 \<and> take 5 (internal io1) = replicate 5 (CHR '' '')
           | _ \<Rightarrow> False))"
  by code_simp

text \<open>
  Claim C3 says that \<^verbatim>\<open>OutputInteger64\<close> returns false only when the sink rejected an
  emission. The code returns false after the padding loop although the sink accepted
  both blanks: the buffer of 32 characters has room, no end of record is signalled (the
  status stays 0), and the result is false.
\<close>

theorem C3_false_without_rejection:
  "(case BeginInternalFormattedOutput 32 ''(I5)'' 3 of
      Inl e \<Rightarrow> False
    | Inr io \<Rightarrow>
        (case GetNext 1 io of
           Some (Inr (edit, io1)) \<Rightarrow>
             fst (Emit '' '' 1 io1) \<and> fst (Emit '' '' 1 (snd (Emit '' '' 1 io1))) \<and>
             (case editInteger64 edit (- 42) io1 of
                Inr (ok, io2) \<Rightarrow>
                  \<not> ok \<and> GetIoStat io2 = IostatOk \<and>
                  at io2 = at (snd (Emit '' '' 1 (snd (Emit '' '' 1 io1))))
              | Inl e \<Rightarrow> False)
         | _ \<Rightarrow> False))"
  by code_simp

subsection \<open>Control edit descriptors of two letters\<close>

text \<open>
  Claim C4 says that a control edit descriptor of two letters is consumed as a whole. The
  code looks at the second letter with \<^verbatim>\<open>PeekNext\<close> and never moves the cursor past it,
  so the second letter is read again as the next item: under \<open>(TL2,I4)\<close>
  \<^verbatim>\<open>GetIntField\<close> finds \<open>L\<close> and crashes; under \<open>(BZ,I4)\<close> the \<open>Z\<close> is taken for a data
  edit descriptor whose width is missing; under \<open>(RN,I4)\<close> the \<open>N\<close> is an unknown
  descriptor; under \<open>(SP,I4)\<close> the \<open>P\<close> sets the scale factor to 1 (and the field for 12
  is then one blank, see C1).
\<close>

theorem C4_second_letter_read_again:
  "writeIntegers 32 ''(TL2,I4)'' 3 [12] = Some (Inl (IntegerExpected (CHR ''L'')))
   \<and> writeIntegers 32 ''(BZ,I4)'' 3 [12] = Some (Inl (IntegerExpected (CHR '','')))
   \<and> writeIntegers 32 ''(RN,I4)'' 3 [12] = Some (Inl (UnknownEdit1 (CHR ''N'')))
   \<and> writeIntegers 32 ''(SP,I4)'' 3 [12] = Some (Inr ([False], IostatOk, replicate 32 (CHR '' '')))
   \<and> (case BeginInternalFormattedOutput 32 ''(SP,I4)'' 3 of
        Inl e \<Rightarrow> False
      | Inr io \<Rightarrow>
          (case GetNext 1 io of
             Some (Inr (edit, io1)) \<Rightarrow>
               signPlus \<in> editingFlags (modes edit) \<and> scale io = 0 \<and> scale io1 = 1
           | _ \<Rightarrow> False))"
  by code_simp

subsection \<open>An unlimited group without data edit descriptors\<close>

lemma inUnlimitedLap_closed:
  "inUnlimitedLap st \<Longrightarrow> \<exists>st'. CueUp_turn False st = Continue st' \<and> inUnlimitedLap st'"
  by (cases st) (auto simp: inUnlimitedLap_def turn_defs)

lemma unlimited_group_CueUp:
  "CueUpNextDataEdit False (InternalFormattedIoStatementState len ''(*(S))'' 4) = None"
    (is "CueUpNextDataEdit False ?s = None")
proof -
  have "\<exists>st. CueUpNextDataEdit False ?s = CueUp_loop False st \<and> inUnlimitedLap st"
    unfolding CueUpNextDataEdit_def InternalFormattedIoStatementState_def
    apply (subst CueUp_loop.simps)
    apply (simp add: turn_defs)
    apply (subst CueUp_loop.simps)
    apply (simp add: turn_defs)
    apply (intro exI conjI, rule refl)
    apply (simp add: inUnlimitedLap_def unlimited_def)
    done
  then show ?thesis
    using CueUp_loop_diverges [of inUnlimitedLap False, OF inUnlimitedLap_closed] by auto
qed

text \<open>
  Claim C5 says that the walk over a FORMAT whose unlimited group has no data edit
  descriptor fails after one lap. The sentinel \<^verbatim>\<open>unlimitedLoopCheck\<close> holds the offset of
  the group's \<open>(\<close>, the cursor that is compared with it at \<open>)\<close> is one past that offset,
  so the crash is never reached: for \<open>(*(S))\<close>, whatever the buffer length and the
  data, the first \<^verbatim>\<open>OutputInteger64\<close> never returns.
\<close>

theorem C5_unlimited_group_never_returns:
  "writeIntegers len ''(*(S))'' 4 (n # ns) = None"
  by (simp add: writeIntegers_def BeginInternalFormattedOutput_def OutputInteger64_def
      GetNext_def unlimited_group_CueUp)

subsection \<open>The bound of the stack\<close>

lemma nested_nth:
  "k < n \<Longrightarrow> nested n ! k = CHR ''(''"
  "nested n ! n = CHR ''3''"
  "nested n ! Suc n = CHR ''I''"
  "nested n ! Suc (Suc n) = CHR ''2''"
  "0 < n \<Longrightarrow> nested n ! Suc (Suc (Suc n)) = CHR '')''"
  by (simp_all add: nested_def nth_append)

lemma descending_step:
  assumes "descending n k st" and "k < n"
  shows "\<exists>st'. CueUp_turn False st = Continue st' \<and> descending n (Suc k) st'"
  using assms
  by (cases st) (auto simp: descending_def turn_defs nested_nth)

lemma descending_loop:
  assumes "descending n k st" and "k \<le> n"
  shows "\<exists>st'. CueUp_loop False st = CueUp_loop False st' \<and> descending n n st'"
  using assms
proof (induction "n - k" arbitrary: k st)
  case 0
  then have "descending n n st"
    by simp
  then show ?case
    by blast
next
  case (Suc d)
  then have "k < n"
    by simp
  with Suc.prems obtain st1 where t: "CueUp_turn False st = Continue st1"
    and d1: "descending n (Suc k) st1"
    using descending_step by blast
  from Suc.hyps(2) \<open>k < n\<close> have "d = n - Suc k" "Suc k \<le> n"
    by simp_all
  from Suc.hyps(1) [OF this(1) d1 this(2)] obtain st' where
    "CueUp_loop False st1 = CueUp_loop False st'" and "descending n n st'"
    by blast
  moreover from t have "CueUp_loop False st = CueUp_loop False st1"
    by (subst CueUp_loop.simps) simp
  ultimately show ?case
    by metis
qed

lemma descending_bottom:
  assumes "descending n n st" and "0 < n"
  shows "CueUp_turn False st = Return 3 ((snd st)\<lparr>offset := int n + 1\<rparr>)"
  using assms
  by (cases st)
    (simp add: descending_def turn_defs nested_nth GetIntField_def GetIntField_loop_digit
      GetIntField_loop_other nat_add_distrib)

lemma nat_offsets:
  "nat (1 + int n) = Suc n" "nat (int n + 1) = Suc n"
  "nat (2 + int n) = Suc (Suc n)" "nat (int n + 2) = Suc (Suc n)"
  "nat (3 + int n) = Suc (Suc (Suc n))" "nat (int n + 3) = Suc (Suc (Suc n))"
  by simp_all

lemma descending_edit:
  assumes f: "format s = nested n" and fl: "formatLength s = int (2 * n + 3)"
    and o: "offset s = int n + 1" and h: "height s = n" and n: "0 < n"
  shows "\<exists>edit s'. readDataEdit 3 1 s = Inr (edit, s') \<and> height s' = Suc n \<and> maxHeight s' = maxHeight s"
proof -
  define s1 where "s1 = s\<lparr>offset := offset s + 1\<rparr>"
  define s2 where "s2 = s1\<lparr>offset := offset s1 + 1\<rparr>"
  have o1: "offset s1 = int (Suc (Suc n))" and o2: "offset s2 = int (Suc (Suc (Suc n)))"
    using o by (simp_all add: s1_def s2_def)
  have fs: "format s1 = nested n" "formatLength s1 = int (2 * n + 3)"
    "format s2 = nested n" "formatLength s2 = int (2 * n + 3)"
    using f fl by (simp_all add: s1_def s2_def)
  have g: "GetNextChar s = Inr (CHR ''I'', s1)"
    using f fl o by (simp add: GetNextChar_def nested_nth nat_offsets s1_def)
  have p1: "PeekNext s1 = CHR ''2''"
    unfolding PeekNext_def fs o1 by (simp add: nested_nth nat_offsets)
  have p2: "PeekNext s2 = CHR '')''"
    unfolding PeekNext_def fs o2 using n by (simp add: nested_nth nat_offsets)
  have l2: "GetIntField_loop NUL (CHR '')'') 2 s2 = Inr (2, s2)"
    by (rule GetIntField_loop_other) simp
  have l1: "GetIntField_loop NUL (CHR ''2'') 0 s1 = Inr (2, s2)"
    by (subst GetIntField_loop_digit) (simp_all add: s2_def [symmetric] p2 l2)
  have w: "GetIntField NUL s1 = Inr (2, s2)"
    by (simp add: GetIntField_def p1 l1)
  have fI: "format s2 ! nat (offset s) = CHR ''I''"
    using fs o by (simp add: nested_nth nat_offsets)
  have h2: "height s2 = n" "maxHeight s2 = maxHeight s"
    using h by (simp_all add: s1_def s2_def)
  have "readDataEdit 3 1 s = Inr (repeatedEdit 3 1 (offset s)
      \<lparr>descriptor = CHR ''I'', variation = NUL, width = 2, digits = None, expoDigits = None,
        modes = mutableModes s2, repeat = 1\<rparr> s2)"
    by (simp add: readDataEdit_def g w p1 p2 Capitalize_def Let_def)
  moreover have "height (snd (repeatedEdit 3 1 (offset s) e s2)) = Suc n \<and>
      maxHeight (snd (repeatedEdit 3 1 (offset s) e s2)) = maxHeight s" for e
    using fI h2 n by (simp add: repeatedEdit_def Let_def)
  ultimately show ?thesis
    by (metis prod.collapse)
qed

text \<open>
  Claim C6 says that the cursor of the FORMAT stays within \<open>[0, formatLength]\<close> and that
  the stack never holds more than \<^verbatim>\<open>maxHeight\<close> frames, the frame that \<^verbatim>\<open>GetNext\<close> pushes
  for a repeated descriptor without parentheses included. The bound of the stack is
  checked where \<open>(\<close> pushes a frame and nowhere else: \<^verbatim>\<open>GetNext\<close> pushes its frame
  without a check. So for every bound
  \<open>n\<close> from 1 to 127 given to the statement, the FORMAT of \<open>n\<close> nested parentheses around
  \<open>3I2\<close> is accepted, and the first \<^verbatim>\<open>GetNext\<close> returns an edit and leaves \<open>n + 1\<close> frames
  on the stack.
\<close>

theorem C6_repeated_descriptor_exceeds_maxHeight:
  assumes "0 < n" and "n \<le> 127"
  shows "\<exists>io edit io1.
     BeginInternalFormattedOutput len (nested n) (int n) = Inr io \<and> maxHeight io = n \<and>
     GetNext 1 io = Some (Inr (edit, io1)) \<and> maxHeight io1 = n \<and> height io1 = n + 1"
proof -
  let ?io = "InternalFormattedIoStatementState len (nested n) (int n)"
  from assms have b: "BeginInternalFormattedOutput len (nested n) (int n) = Inr ?io"
    by (simp add: BeginInternalFormattedOutput_def)
  from assms have mh: "maxHeight ?io = n"
    by (simp add: InternalFormattedIoStatementState_def)
  from assms have "descending n 0 (- 1, ?io)"
    by (simp add: descending_def InternalFormattedIoStatementState_def nested_def)
  from descending_loop [OF this] obtain st where l: "CueUp_loop False (- 1, ?io) = CueUp_loop False st"
    and d: "descending n n st"
    by auto
  let ?s = "(snd st)\<lparr>offset := int n + 1\<rparr>"
  from descending_bottom [OF d assms(1)] have "CueUp_loop False st = Some (Inr (3, ?s))"
    by (subst CueUp_loop.simps) simp
  with l have c: "CueUpNextDataEdit False ?io = Some (Inr (3, ?s))"
    by (simp add: CueUpNextDataEdit_def)
  from d assms(1) have "\<exists>edit s'. readDataEdit 3 1 ?s = Inr (edit, s') \<and> height s' = Suc n \<and>
      maxHeight s' = maxHeight ?s"
    by (intro descending_edit [of _ n]) (simp_all add: descending_def)
  then obtain edit s' where r: "readDataEdit 3 1 ?s = Inr (edit, s')" and h: "height s' = Suc n"
    and m: "maxHeight s' = maxHeight ?s"
    by blast
  from d have "maxHeight ?s = n"
    by (simp add: descending_def)
  with c r h m b mh show ?thesis
    by (simp add: GetNext_def)
qed

text \<open>The FORMAT \<open>(((3I2)))\<close> under a bound of three frames.\<close>

theorem C6_repeated_descriptor_exceeds_maxHeight_witness:
  "\<exists>io edit io1.
     BeginInternalFormattedOutput 32 ''(((3I2)))'' 3 = Inr io \<and> maxHeight io = 3 \<and>
     GetNext 1 io = Some (Inr (edit, io1)) \<and> maxHeight io1 = 3 \<and> height io1 = 4"
  using C6_repeated_descriptor_exceeds_maxHeight [of 3 32]
  by (simp add: nested_def eval_nat_numeral)

subsection \<open>The blank field of a zero under \<open>Iw.0\<close>, and \<^verbatim>\<open>Emit\<close>\<close>

lemma Emit_fits:
  "at s + k \<le> internalLength s \<Longrightarrow>
   Emit d k s = (True, s\<lparr>internal := memcpy (internal s) (at s) d k, at := at s + k\<rparr>)"
  by (simp add: Emit_def)

lemma emitTimes_fits:
  "at s + k \<le> internalLength s \<Longrightarrow> length (internal s) = internalLength s \<Longrightarrow>
   emitTimes k [c] s =
     (True, s\<lparr>internal := take (at s) (internal s) @ replicate k c @ drop (at s + k) (internal s),
               at := at s + k\<rparr>)"
proof (induction k arbitrary: s)
  case 0
  then show ?case by simp
next
  case (Suc k)
  let ?s1 = "s\<lparr>internal := memcpy (internal s) (at s) [c] 1, at := at s + 1\<rparr>"
  from Suc.prems have e: "Emit [c] 1 s = (True, ?s1)"
    by (simp add: Emit_fits)
  from Suc.prems have "at ?s1 + k \<le> internalLength ?s1" "length (internal ?s1) = internalLength ?s1"
    by (simp_all add: memcpy_def)
  from Suc.IH [OF this] Suc.prems e show ?case
    by (simp add: memcpy_def replicate_app_Cons_same add.commute)
qed

lemma I00_zero:
  "(case BeginInternalFormattedOutput 32 ''(I0.0)'' 3 of
      Inl e \<Rightarrow> False
    | Inr io \<Rightarrow>
        (case OutputInteger64 0 io of
           Some (Inr (ok, io1)) \<Rightarrow> at io = 0 \<and> at io1 = 1 \<and> take 1 (internal io1) = '' ''
         | _ \<Rightarrow> False))"
  by code_simp

text \<open>
  Claim C7. For the value 0 under an edit \<open>Iw.0\<close> (descriptor \<open>I\<close>, \<open>digits\<close> present and
  0), whatever the modes of the edit (so also with \<open>signPlus\<close>), the only emissions are
  \<open>max 1 w\<close> single blanks: no sign, no zero, no digit. Where the buffer has room for
  them, the field written at the cursor is \<open>max 1 w\<close> blanks. Under \<open>(I0.0)\<close> the item 0
  moves the cursor by one blank.
\<close>

theorem C7_Iw0_zero_is_blank:
  assumes "descriptor edit = CHR ''I''" and "digits edit = Some 0"
  shows "editInteger64 edit 0 io = Inr (False, snd (emitTimes (nat (max 1 (width edit))) '' '' io))
    \<and> (at io + nat (max 1 (width edit)) \<le> internalLength io \<and> length (internal io) = internalLength io
        \<longrightarrow> snd (emitTimes (nat (max 1 (width edit))) '' '' io) =
            io\<lparr>internal := take (at io) (internal io) @ replicate (nat (max 1 (width edit))) (CHR '' '')
                    @ drop (at io + nat (max 1 (width edit))) (internal io),
               at := at io + nat (max 1 (width edit))\<rparr>)
    \<and> (case BeginInternalFormattedOutput 32 ''(I0.0)'' 3 of
          Inl e \<Rightarrow> False
        | Inr io \<Rightarrow>
            (case OutputInteger64 0 io of
               Some (Inr (ok, io1)) \<Rightarrow> at io = 0 \<and> at io1 = 1 \<and> take 1 (internal io1) = '' ''
             | _ \<Rightarrow> False))"
proof -
  have "0 < max 1 (width edit)"
    by simp
  with assms have "editInteger64 edit 0 io =
      Inr (False, snd (emitTimes (nat (max 1 (width edit))) '' '' io))"
    by (simp add: editInteger64_def convertInteger_def decimalDigits.simps Let_def
        del: max_less_iff_conj)
  then show ?thesis
    using I00_zero by (simp add: emitTimes_fits)
qed

theorem C7_Iw0_zero_is_blank_witness:
  "editInteger64
     \<lparr>descriptor = CHR ''I'', variation = NUL, width = 0, digits = Some 0, expoDigits = None,
      modes = \<lparr>editingFlags = {signPlus}, roundingMode = TiesToEven\<rparr>, repeat = 1\<rparr>
     0 (InternalFormattedIoStatementState 4 ''(SP,I0.0)'' 3)
   = Inr (False, (InternalFormattedIoStatementState 4 ''(SP,I0.0)'' 3)\<lparr>internal := ''    '', at := 1\<rparr>)"
proof -
  let ?e = "\<lparr>descriptor = CHR ''I'', variation = NUL, width = 0, digits = Some 0, expoDigits = None,
      modes = \<lparr>editingFlags = {signPlus}, roundingMode = TiesToEven\<rparr>, repeat = 1\<rparr>"
  let ?io = "InternalFormattedIoStatementState 4 ''(SP,I0.0)'' 3"
  have h: "descriptor ?e = CHR ''I''" "digits ?e = Some 0"
    by simp_all
  have room: "at ?io + nat (max 1 (width ?e)) \<le> internalLength ?io \<and>
      length (internal ?io) = internalLength ?io"
    by (simp add: InternalFormattedIoStatementState_def)
  from C7_Iw0_zero_is_blank [OF h, of ?io] room
  have "editInteger64 ?e 0 ?io =
      Inr (False, ?io\<lparr>internal := take (at ?io) (internal ?io) @ replicate (nat (max 1 (width ?e))) (CHR '' '')
                    @ drop (at ?io + nat (max 1 (width ?e))) (internal ?io),
               at := at ?io + nat (max 1 (width ?e))\<rparr>)"
    by (simp only:)
  then show ?thesis
    by (simp add: InternalFormattedIoStatementState_def eval_nat_numeral)
qed


lemma Emit_keeps_buffer:
  assumes "at s \<le> internalLength s" and "length (internal s) = internalLength s"
    and "chars \<le> length data"
  shows "at (snd (Emit data chars s)) \<le> internalLength (snd (Emit data chars s))"
    and "length (internal (snd (Emit data chars s))) = internalLength (snd (Emit data chars s))"
  using assms by (auto simp: Emit_def SignalEor_def memcpy_def Let_def)




subsection \<open>The most negative integer\<close>

text \<open>
  Claim C10. For \<open>n = -2\<^sup>6\<^sup>3\<close> the value \<open>un\<close> is \<open>2\<^sup>6\<^sup>3\<close> (the negation wraps round in
  64 bits), and the digits converted are those of \<open>2\<^sup>6\<^sup>3\<close> under each integer
  descriptor; the fields written under \<open>(I20)\<close> and \<open>(Z16)\<close> are complete.
\<close>

lemma most_negative_word:
  "(0x8000000000000000 :: 64 word) <s 0"
  "- (0x8000000000000000 :: 64 word) = 0x8000000000000000"
  by (simp_all add: word_sless_alt)

lemma digits_of_most_negative:
  "decimalDigits 0x8000000000000000 [] = ''9223372036854775808''"
  "hexDigits 0x8000000000000000 [] = ''8000000000000000''"
  "octalDigits 0x8000000000000000 [] = ''1000000000000000000000''"
  "binaryDigits 0x8000000000000000 [] = CHR ''1'' # replicate 63 (CHR ''0'')"
  by code_simp+

lemma fields_of_most_negative:
  "writeIntegers 32 ''(I20)'' 3 [0x8000000000000000]
     = Some (Inr ([True], IostatOk, ''-9223372036854775808'' @ replicate 12 (CHR '' '')))"
  "writeIntegers 32 ''(Z16)'' 3 [0x8000000000000000]
     = Some (Inr ([True], IostatOk, ''8000000000000000'' @ replicate 16 (CHR '' '')))"
  by code_simp+

theorem C10_most_negative:
  "sint (0x8000000000000000 :: 64 word) = - (2 ^ 63)
   \<and> unat (- (0x8000000000000000 :: 64 word)) = 2 ^ 63
   \<and> convertInteger (edit\<lparr>descriptor := CHR ''I''\<rparr>) 0x8000000000000000
       = Some (1, ''9223372036854775808'')
   \<and> convertInteger (edit\<lparr>descriptor := CHR ''G''\<rparr>) 0x8000000000000000
       = Some (1, ''9223372036854775808'')
   \<and> convertInteger (edit\<lparr>descriptor := CHR ''Z''\<rparr>) 0x8000000000000000
       = Some (0, ''8000000000000000'')
   \<and> convertInteger (edit\<lparr>descriptor := CHR ''O''\<rparr>) 0x8000000000000000
       = Some (0, ''1000000000000000000000'')
   \<and> convertInteger (edit\<lparr>descriptor := CHR ''B''\<rparr>) 0x8000000000000000
       = Some (0, CHR ''1'' # replicate 63 (CHR ''0''))
   \<and> writeIntegers 32 ''(I20)'' 3 [0x8000000000000000]
       = Some (Inr ([True], IostatOk, ''-9223372036854775808'' @ replicate 12 (CHR '' '')))
   \<and> writeIntegers 32 ''(Z16)'' 3 [0x8000000000000000]
       = Some (Inr ([True], IostatOk, ''8000000000000000'' @ replicate 16 (CHR '' '')))"
  by (simp add: convertInteger_def most_negative_word digits_of_most_negative
      fields_of_most_negative)

subsection \<open>A group and the copies of its contents\<close>



lemma not_isDigit [simp]:
  "\<not> isDigit NUL" "\<not> isDigit (CHR '','')" "\<not> isDigit (CHR '':'')" "\<not> isDigit (CHR ''-'')"
  "\<not> isDigit (CHR ''+'')" "\<not> isDigit (CHR ''*'')" "\<not> isDigit (CHR ''('')" "\<not> isDigit (CHR '')'')"
  "\<not> isDigit (CHR ''.'')"
  by (simp_all add: isDigit_def less_eq_char_def)


lemma isDigit_not_letter: "isDigit c \<Longrightarrow> \<not> (CHR ''A'' \<le> c \<and> c \<le> CHR ''Z'')"
  by (auto simp: isDigit_def less_eq_char_def)



lemma valueOf_simps [simp]: "valueOf acc [] = acc" "valueOf acc (d # ds) = valueOf (10 * acc + int d) ds"
  by (simp_all add: valueOf_def)





lemma PeekNext_end:
  "format s = P \<Longrightarrow> formatLength s = int (length (format s)) \<Longrightarrow>
   offset s = int (length P) \<Longrightarrow> PeekNext s = NUL"
  by (simp add: PeekNext_def)





lemma stops_nondigit: "\<not> isDigit c \<Longrightarrow> stops (c # R)"
  by (simp add: stops_def)




















lemma theEdit_repeat [simp]: "repeat (theEdit m e) = 1"
  by (simp add: theEdit_def)

lemma body_no_count [simp]:
  "bodyText (e\<lparr>rcount := k\<rparr>) = bodyText e" "theEdit m (e\<lparr>rcount := k\<rparr>) = theEdit m e"
  "validEdit e \<Longrightarrow> validEdit (e\<lparr>rcount := None\<rparr>)"
  by (simp_all add: bodyText_def theEdit_def validEdit_def)


































end
